theory Spec2Isabelle
  imports Complex_Main
begin

section \<open>Python values\<close>

text \<open>
  The retrieval code is duck-typed: a raw hit of the vector index, its payload and its
  score may each be a value of any Python type. \<open>pyval\<close> is the universe of values the
  code inspects with \<open>isinstance\<close>, \<open>hasattr\<close> and \<open>getattr\<close>.

  \<^item> A \<open>float\<close> is a \<open>real\<close>: IEEE rounding, infinities, NaN and the finite range of a
    double are not modelled, so \<open>float(i)\<close> of an \<open>int\<close> is exact.
  \<^item> A \<open>str\<close> is a \<open>string\<close> whose characters are the code points below 256.
  \<^item> A \<open>dict\<close> has \<open>str\<close> keys and is an association list; the first entry of a key
    is its value.
  \<^item> \<open>PObj c as\<close> is an instance of a class named \<open>c\<close> with the instance attributes
    \<open>as\<close> (its \<open>__dict__\<close>) and no special methods: no \<open>__getitem__\<close>, \<open>__len__\<close>,
    \<open>__iter__\<close>, \<open>__float__\<close> or \<open>__bool__\<close>.
\<close>

datatype pyval =
    PNone
  | PBool bool
  | PInt int
  | PFloat real
  | PStr string
  | PList "pyval list"
  | PTuple "pyval list"
  | PSet "pyval list"
  | PDict "(string \<times> pyval) list"
  | PObj string "(string \<times> pyval) list"

text \<open>An exception is its class name and its message (\<open>str(e)\<close>).\<close>

datatype exn = Exn (exn_class: string) (exn_msg: string)

definition sq :: string where
  "sq = [CHR 0x27]"

fun type_name :: "pyval \<Rightarrow> string" where
  "type_name PNone = ''NoneType''"
| "type_name (PBool _) = ''bool''"
| "type_name (PInt _) = ''int''"
| "type_name (PFloat _) = ''float''"
| "type_name (PStr _) = ''str''"
| "type_name (PList _) = ''list''"
| "type_name (PTuple _) = ''tuple''"
| "type_name (PSet _) = ''set''"
| "type_name (PDict _) = ''dict''"
| "type_name (PObj c _) = c"

definition attribute_error :: "pyval \<Rightarrow> string \<Rightarrow> exn" where
  "attribute_error v a =
     Exn ''AttributeError'' (sq @ type_name v @ sq @ '' object has no attribute '' @ sq @ a @ sq)"

fun is_dict :: "pyval \<Rightarrow> bool" where
  "is_dict (PDict _) = True"
| "is_dict _ = False"

fun is_str :: "pyval \<Rightarrow> bool" where
  "is_str (PStr _) = True"
| "is_str _ = False"

fun is_list :: "pyval \<Rightarrow> bool" where
  "is_list (PList _) = True"
| "is_list _ = False"

text \<open>\<open>isinstance(v, int)\<close>: \<open>bool\<close> is a subclass of \<open>int\<close>.\<close>

fun is_int :: "pyval \<Rightarrow> bool" where
  "is_int (PInt _) = True"
| "is_int (PBool _) = True"
| "is_int _ = False"

text \<open>\<open>isinstance(v, (int, float))\<close>.\<close>

fun is_number :: "pyval \<Rightarrow> bool" where
  "is_number (PInt _) = True"
| "is_number (PBool _) = True"
| "is_number (PFloat _) = True"
| "is_number _ = False"

text \<open>\<open>d.get(k, default)\<close> on a \<open>dict\<close>.\<close>

definition dict_get :: "(string \<times> pyval) list \<Rightarrow> string \<Rightarrow> pyval \<Rightarrow> pyval" where
  "dict_get d k dflt = (case map_of d k of None \<Rightarrow> dflt | Some v \<Rightarrow> v)"

text \<open>Truth value of a Python value, as \<open>if v:\<close> tests it.\<close>

fun truthy :: "pyval \<Rightarrow> bool" where
  "truthy PNone = False"
| "truthy (PBool b) = b"
| "truthy (PInt i) = (i \<noteq> 0)"
| "truthy (PFloat r) = (r \<noteq> 0)"
| "truthy (PStr s) = (s \<noteq> [])"
| "truthy (PList xs) = (xs \<noteq> [])"
| "truthy (PTuple xs) = (xs \<noteq> [])"
| "truthy (PSet xs) = (xs \<noteq> [])"
| "truthy (PDict d) = (d \<noteq> [])"
| "truthy (PObj _ _) = True"

text \<open>\<open>len(v)\<close>: a \<open>TypeError\<close> for a value without \<open>__len__\<close>.\<close>

fun py_len :: "pyval \<Rightarrow> exn + nat" where
  "py_len (PStr s) = Inr (length s)"
| "py_len (PList xs) = Inr (length xs)"
| "py_len (PTuple xs) = Inr (length xs)"
| "py_len (PSet xs) = Inr (length xs)"
| "py_len (PDict d) = Inr (length (remdups (map fst d)))"
| "py_len v = Inl (Exn ''TypeError'' (''object of type '' @ sq @ type_name v @ sq @ '' has no len()''))"

section \<open>Python string operations\<close>

text \<open>\<open>str.isspace\<close> on a code point below 256.\<close>

definition py_isspace :: "char \<Rightarrow> bool" where
  "py_isspace c = (let n = (of_char c :: nat) in
     (9 \<le> n \<and> n \<le> 13) \<or> (28 \<le> n \<and> n \<le> 32) \<or> n = 133 \<or> n = 160)"

text \<open>\<open>str.lower\<close> on a code point below 256: A-Z and the Latin-1 capitals.\<close>

definition py_lower_char :: "char \<Rightarrow> char" where
  "py_lower_char c = (let n = (of_char c :: nat) in
     if 65 \<le> n \<and> n \<le> 90 then char_of (n + 32)
     else if n = 215 then c
     else if 192 \<le> n \<and> n \<le> 222 then char_of (n + 32)
     else c)"

definition py_lower :: "string \<Rightarrow> string" where
  "py_lower s = map py_lower_char s"

text \<open>\<open>s.strip(chars)\<close> and \<open>s.strip()\<close>.\<close>

definition py_strip_chars :: "string \<Rightarrow> string \<Rightarrow> string" where
  "py_strip_chars chars s =
     rev (dropWhile (\<lambda>c. c \<in> set chars) (rev (dropWhile (\<lambda>c. c \<in> set chars) s)))"

definition py_strip :: "string \<Rightarrow> string" where
  "py_strip s = rev (dropWhile py_isspace (rev (dropWhile py_isspace s)))"

text \<open>\<open>s.split()\<close>: the maximal runs of non-whitespace, in order. \<open>cur\<close> is the run read so far.\<close>

fun py_split_from :: "string \<Rightarrow> string \<Rightarrow> string list" where
  "py_split_from cur [] = (if cur = [] then [] else [cur])"
| "py_split_from cur (c # cs) =
     (if py_isspace c
      then (if cur = [] then py_split_from [] cs else cur # py_split_from [] cs)
      else py_split_from (cur @ [c]) cs)"

definition py_split :: "string \<Rightarrow> string list" where
  "py_split s = py_split_from [] s"

text \<open>\<open>s.startswith(p)\<close> and the substring test \<open>t in s\<close>.\<close>

fun startswith :: "string \<Rightarrow> string \<Rightarrow> bool" where
  "startswith s [] = True"
| "startswith [] (p # ps) = False"
| "startswith (c # cs) (p # ps) = (c = p \<and> startswith cs ps)"

fun py_in :: "string \<Rightarrow> string \<Rightarrow> bool" where
  "py_in t [] = (t = [])"
| "py_in t (c # cs) = (startswith (c # cs) t \<or> py_in t cs)"

section \<open>The metadata validator\<close>

text \<open>\<open>VectorStorage.validate_metadata\<close>. The report is the dictionary it returns.\<close>

record validation_result =
  valid :: bool
  errors :: "string list"
  warnings :: "string list"

definition add_error :: "string \<Rightarrow> validation_result \<Rightarrow> validation_result" where
  "add_error msg vr = vr\<lparr>valid := False, errors := errors vr @ [msg]\<rparr>"

definition add_warning :: "string \<Rightarrow> validation_result \<Rightarrow> validation_result" where
  "add_warning msg vr = vr\<lparr>warnings := warnings vr @ [msg]\<rparr>"

definition required_result_fields :: "string list" where
  "required_result_fields = [''score'', ''payload'', ''url'', ''title'', ''content'']"

definition required_payload_fields :: "string list" where
  "required_payload_fields =
     [''url'', ''title'', ''content'', ''headings'', ''chunk_index'', ''source_document'', ''metadata'']"

text \<open>The first loop: a top-level field that is not a key of the result.\<close>

fun check_result_fields ::
  "(string \<times> pyval) list \<Rightarrow> string list \<Rightarrow> validation_result \<Rightarrow> validation_result" where
  "check_result_fields result [] vr = vr"
| "check_result_fields result (field # rest) vr =
     check_result_fields result rest
       (if map_of result field = None
        then add_error (''Missing required field: '' @ field) vr else vr)"

text \<open>The body of the second loop, for one payload field.\<close>

definition check_payload_field ::
  "(string \<times> pyval) list \<Rightarrow> string \<Rightarrow> validation_result \<Rightarrow> validation_result" where
  "check_payload_field payload field vr =
     (case map_of payload field of
        None \<Rightarrow> add_error (''Missing required payload field: '' @ field) vr
      | Some v \<Rightarrow>
          if field = ''url'' \<or> field = ''title'' \<or> field = ''content'' \<or> field = ''source_document''
          then (if \<not> is_str v
                then add_error (''Payload field '' @ sq @ field @ sq @ '' must be a string'') vr
                else vr)
          else if field = ''headings''
          then (if \<not> is_list v
                then add_error (''Payload field '' @ sq @ field @ sq @ '' must be a list'') vr
                else vr)
          else if field = ''chunk_index''
          then (if \<not> is_int v
                then add_error (''Payload field '' @ sq @ field @ sq @ '' must be an integer'') vr
                else vr)
          else if field = ''metadata''
          then (if \<not> is_dict v
                then add_error (''Payload field '' @ sq @ field @ sq @ '' must be a dictionary'') vr
                else vr)
          else vr)"

fun check_payload_fields ::
  "(string \<times> pyval) list \<Rightarrow> string list \<Rightarrow> validation_result \<Rightarrow> validation_result" where
  "check_payload_fields payload [] vr = vr"
| "check_payload_fields payload (field # rest) vr =
     check_payload_fields payload rest (check_payload_field payload field vr)"

definition check_payload :: "(string \<times> pyval) list \<Rightarrow> validation_result \<Rightarrow> validation_result" where
  "check_payload result vr =
     (case dict_get result ''payload'' (PDict []) of
        PDict payload \<Rightarrow> check_payload_fields payload required_payload_fields vr
      | _ \<Rightarrow> add_error ''Payload must be a dictionary'' vr)"

definition url_prefixes :: "string list" where
  "url_prefixes = [''http://'', ''https://'', ''/'', ''#'', ''mailto:'', ''tel:'']"

text \<open>
  The three "semantic" checks read the top-level \<open>url\<close>, \<open>title\<close> and \<open>content\<close> of the
  result. \<open>url.startswith\<close> and \<open>content.strip\<close> exist only on a \<open>str\<close>, and \<open>len\<close>
  only on a sized value: on anything else the call raises.
\<close>

definition check_url :: "(string \<times> pyval) list \<Rightarrow> validation_result \<Rightarrow> exn + validation_result" where
  "check_url result vr =
     (case map_of result ''url'' of
        None \<Rightarrow> Inr vr
      | Some url \<Rightarrow>
          if \<not> truthy url then Inr vr
          else (case url of
                  PStr u \<Rightarrow>
                    if \<not> list_ex (startswith u) url_prefixes
                    then Inr (add_warning (''URL may not be properly formatted: '' @ take 50 u @ ''...'') vr)
                    else Inr vr
                | _ \<Rightarrow> Inl (attribute_error url ''startswith'')))"

definition check_title :: "(string \<times> pyval) list \<Rightarrow> validation_result \<Rightarrow> exn + validation_result" where
  "check_title result vr =
     (case map_of result ''title'' of
        None \<Rightarrow> Inr vr
      | Some title \<Rightarrow>
          (case py_len title of
             Inl e \<Rightarrow> Inl e
           | Inr n \<Rightarrow>
               if n > 500 then Inr (add_warning ''Title appears to be excessively long'' vr)
               else Inr vr))"

definition check_content :: "(string \<times> pyval) list \<Rightarrow> validation_result \<Rightarrow> exn + validation_result" where
  "check_content result vr =
     (case map_of result ''content'' of
        None \<Rightarrow> Inr vr
      | Some content \<Rightarrow>
          (case py_len content of
             Inl e \<Rightarrow> Inl e
           | Inr n \<Rightarrow>
               if n < 10
               then (case content of
                       PStr c \<Rightarrow>
                         if py_strip c \<noteq> []
                         then Inr (add_warning ''Content appears to be very short'' vr)
                         else Inr vr
                     | _ \<Rightarrow> Inl (attribute_error content ''strip''))
               else Inr vr))"

definition validate_metadata :: "(string \<times> pyval) list \<Rightarrow> exn + validation_result" where
  "validate_metadata result =
     (let vr0 = \<lparr>valid = True, errors = [], warnings = []\<rparr>;
          vr1 = check_result_fields result required_result_fields vr0;
          vr2 = check_payload result vr1
      in case check_url result vr2 of
           Inl e \<Rightarrow> Inl e
         | Inr vr3 \<Rightarrow>
             (case check_title result vr3 of
                Inl e \<Rightarrow> Inl e
              | Inr vr4 \<Rightarrow> check_content result vr4))"

section \<open>Normalising a raw hit\<close>

text \<open>
  \<open>getattr(v, a, default)\<close>, \<open>hasattr(v, a)\<close> and \<open>v.a\<close> for the attribute names the code
  probes (\<open>results\<close>, \<open>points\<close>, \<open>payload\<close>, \<open>score\<close>, \<open>score_\<close>, \<open>similarity\<close>): none
  of them is an attribute of a built-in value.
\<close>

fun py_getattr :: "pyval \<Rightarrow> string \<Rightarrow> pyval \<Rightarrow> pyval" where
  "py_getattr (PObj c as) a dflt = dict_get as a dflt"
| "py_getattr v a dflt = dflt"

fun py_hasattr :: "pyval \<Rightarrow> string \<Rightarrow> bool" where
  "py_hasattr (PObj c as) a = (map_of as a \<noteq> None)"
| "py_hasattr v a = False"

definition py_attr :: "pyval \<Rightarrow> string \<Rightarrow> exn + pyval" where
  "py_attr v a = (if py_hasattr v a then Inr (py_getattr v a PNone) else Inl (attribute_error v a))"

text \<open>
  "Ensure payload is always a dictionary": a \<open>dict\<close> is kept, a \<open>str\<close> becomes \<open>{}\<close>, and
  any other value becomes its \<open>__dict__\<close> when it has one and \<open>{}\<close> otherwise.
\<close>

definition coerce_payload :: "pyval \<Rightarrow> pyval" where
  "coerce_payload raw_payload =
     (case raw_payload of
        PDict d \<Rightarrow> PDict d
      | PStr s \<Rightarrow> PDict []
      | PObj c as \<Rightarrow> PDict as
      | _ \<Rightarrow> PDict [])"

text \<open>
  The four branches on the shape of a hit, in the order of the source; the value is the
  pair of the payload and the still uncoerced score. A \<open>list\<close> has \<open>__getitem__\<close> but no
  \<open>get\<close>, so the second branch raises on it.
\<close>

definition extract_hit :: "pyval \<Rightarrow> exn + (pyval \<times> pyval)" where
  "extract_hit result =
     (case result of
        PTuple xs \<Rightarrow>
          (let raw_payload = (if length xs = 2 then xs ! 0
                              else if length xs > 0 then xs ! 0 else PDict []);
               raw_score = (if length xs = 2 then xs ! 1
                            else if length xs > 1 then xs ! 1 else PFloat 0)
           in Inr (coerce_payload raw_payload, raw_score))
      | PList xs \<Rightarrow> Inl (attribute_error result ''get'')
      | PDict d \<Rightarrow>
          Inr (coerce_payload (dict_get d ''payload'' (PDict d)),
               dict_get d ''score'' (dict_get d ''score'' (PFloat 0)))
      | _ \<Rightarrow>
          if py_hasattr result ''score''
          then (case py_attr result ''score'' of
                  Inr raw_score \<Rightarrow>
                    Inr (coerce_payload (py_getattr result ''payload'' (PDict [])), raw_score)
                | Inl e \<Rightarrow>
                    Inr (coerce_payload (py_getattr result ''payload'' (PDict [])),
                         py_getattr result ''score''
                           (py_getattr result ''score_'' (py_getattr result ''similarity'' (PFloat 0)))))
          else Inr (coerce_payload (py_getattr result ''payload'' (PDict [])),
                    py_getattr result ''score''
                      (py_getattr result ''score_'' (py_getattr result ''similarity'' (PFloat 0)))))"

subsection \<open>Score coercion\<close>

text \<open>The "additional safety check" on a score that is a collection.\<close>

definition collapse_score :: "pyval \<Rightarrow> pyval" where
  "collapse_score raw_score =
     (case raw_score of
        PTuple (x # xs) \<Rightarrow> if is_number x then x else PFloat 0
      | PList (x # xs) \<Rightarrow> if is_number x then x else PFloat 0
      | PList [] \<Rightarrow> PFloat 0
      | PSet xs \<Rightarrow> PFloat 0
      | PDict d \<Rightarrow> PFloat 0
      | _ \<Rightarrow> raw_score)"

text \<open>
  \<open>float(v)\<close>. How Python reads a \<open>str\<close> as a number is the parameter \<open>pf\<close>: \<open>None\<close> where
  \<open>float\<close> raises \<open>ValueError\<close>.
\<close>

fun py_float :: "(string \<Rightarrow> real option) \<Rightarrow> pyval \<Rightarrow> exn + real" where
  "py_float pf (PFloat r) = Inr r"
| "py_float pf (PInt i) = Inr (of_int i)"
| "py_float pf (PBool b) = Inr (if b then 1 else 0)"
| "py_float pf (PStr s) =
     (case pf s of
        Some r \<Rightarrow> Inr r
      | None \<Rightarrow> Inl (Exn ''ValueError'' (''could not convert string to float: '' @ sq @ s @ sq)))"
| "py_float pf v =
     Inl (Exn ''TypeError''
       (''float() argument must be a string or a real number, not '' @ sq @ type_name v @ sq))"

text \<open>\<open>try: score = float(score)\<close> with \<open>except (TypeError, ValueError): score = 0.0\<close>.\<close>

definition coerce_score :: "(string \<Rightarrow> real option) \<Rightarrow> pyval \<Rightarrow> exn + real" where
  "coerce_score pf raw_score =
     (case py_float pf (collapse_score raw_score) of
        Inr r \<Rightarrow> Inr r
      | Inl e \<Rightarrow>
          if exn_class e = ''TypeError'' \<or> exn_class e = ''ValueError'' then Inr 0 else Inl e)"

section \<open>The relevance scorer\<close>

definition strip_set :: string where
  "strip_set = [CHR 0x27, CHR 0x22] @ ''.,!?()[]{}''"

text \<open>
  \<open>[term.strip(...) for term in query_lower.split() if len(term) > 2]\<close>: the length is
  tested on the token as split, before it is stripped.
\<close>

definition query_terms :: "string \<Rightarrow> string list" where
  "query_terms query =
     map (py_strip_chars strip_set) (filter (\<lambda>t. length t > 2) (py_split (py_lower query)))"

text \<open>The loop that counts the matched terms; \<open>matched_terms\<close> is its counter.\<close>

fun count_matched :: "string list \<Rightarrow> string \<Rightarrow> string \<Rightarrow> nat \<Rightarrow> nat" where
  "count_matched [] content_lower title_lower matched_terms = matched_terms"
| "count_matched (t # ts) content_lower title_lower matched_terms =
     count_matched ts content_lower title_lower
       (if py_in t content_lower \<or> py_in t title_lower then matched_terms + 1 else matched_terms)"

definition boost :: "real \<Rightarrow> nat \<Rightarrow> real" where
  "boost raw matched_terms =
     (if matched_terms > 0
      then min (raw * (1.0 + real matched_terms * 0.2)) 1.0
      else raw)"


section \<open>The search of the vector index\<close>

text \<open>One entry of the list that \<open>VectorStorage.search\<close> returns.\<close>

record result_dict =
  r_score :: real
  r_payload :: "(string \<times> pyval) list"
  r_url :: pyval
  r_title :: string
  r_content :: string
  r_query_time :: real
  r_metadata_validation :: validation_result

text \<open>The dictionary literal built for a hit, as the validator receives it.\<close>

definition result_literal ::
  "real \<Rightarrow> (string \<times> pyval) list \<Rightarrow> pyval \<Rightarrow> string \<Rightarrow> string \<Rightarrow> real \<Rightarrow> (string \<times> pyval) list" where
  "result_literal score_v payload_v url_v title_v content_v qt =
     [(''score'', PFloat score_v), (''payload'', PDict payload_v), (''url'', url_v),
      (''title'', PStr title_v), (''content'', PStr content_v), (''query_time'', PFloat qt)]"

definition preview :: "string \<Rightarrow> string" where
  "preview c = (if length c > 200 then take 200 c @ ''...'' else c)"

text \<open>
  The body of the loop over the hits. \<open>payload.get\<close> needs a \<open>dict\<close>, and \<open>.lower()\<close> a
  \<open>str\<close> under \<open>content\<close> and \<open>title\<close>; a failure of the validator ends the search too.
\<close>

definition process_hit ::
  "(string \<Rightarrow> real option) \<Rightarrow> string list \<Rightarrow> real \<Rightarrow> pyval \<Rightarrow> exn + result_dict" where
  "process_hit pf terms qt result =
     (case extract_hit result of
        Inl e \<Rightarrow> Inl e
      | Inr (payload_v, raw_score) \<Rightarrow>
          (case coerce_score pf raw_score of
             Inl e \<Rightarrow> Inl e
           | Inr raw \<Rightarrow>
               (case payload_v of
                  PDict payload \<Rightarrow>
                    (case dict_get payload ''content'' (PStr []) of
                       PStr content_s \<Rightarrow>
                         (case dict_get payload ''title'' (PStr []) of
                            PStr title_s \<Rightarrow>
                              (let matched_terms =
                                     count_matched terms (py_lower content_s) (py_lower title_s) 0;
                                   score_v = boost raw matched_terms;
                                   url_v = dict_get payload ''url'' (PStr [])
                               in case validate_metadata
                                         (result_literal score_v payload url_v title_s
                                            (preview content_s) qt) of
                                    Inl e \<Rightarrow> Inl e
                                  | Inr validation \<Rightarrow>
                                      Inr \<lparr>r_score = score_v, r_payload = payload, r_url = url_v,
                                           r_title = title_s, r_content = preview content_s,
                                           r_query_time = qt,
                                           r_metadata_validation = validation\<rparr>)
                          | tv \<Rightarrow> Inl (attribute_error tv ''lower''))
                     | cv \<Rightarrow> Inl (attribute_error cv ''lower''))
                | pv \<Rightarrow> Inl (attribute_error pv ''get''))))"

fun process_hits ::
  "(string \<Rightarrow> real option) \<Rightarrow> string list \<Rightarrow> real \<Rightarrow> pyval list \<Rightarrow> exn + result_dict list" where
  "process_hits pf terms qt [] = Inr []"
| "process_hits pf terms qt (h # hs) =
     (case process_hit pf terms qt h of
        Inl e \<Rightarrow> Inl e
      | Inr r \<Rightarrow>
          (case process_hits pf terms qt hs of
             Inl e \<Rightarrow> Inl e
           | Inr rs \<Rightarrow> Inr (r # rs)))"

text \<open>
  What the code runs in: the environment variable, the embedding provider, the three
  search methods of the Qdrant client (a method the client lacks raises
  \<open>AttributeError\<close>), the measured query time and Python's reading of a \<open>str\<close> as a
  \<open>float\<close>. Each method receives the query vector and the requested limit.
\<close>

record environment =
  cohere_api_key :: "string option"
  embed :: "string \<Rightarrow> exn + real list"
  client_search :: "real list \<Rightarrow> int \<Rightarrow> exn + pyval"
  client_search_points :: "real list \<Rightarrow> int \<Rightarrow> exn + pyval"
  client_query_points :: "real list \<Rightarrow> int \<Rightarrow> exn + pyval"
  elapsed :: real
  float_of_str :: "string \<Rightarrow> real option"

fun is_none :: "pyval \<Rightarrow> bool" where
  "is_none PNone = True"
| "is_none _ = False"

text \<open>
  One \<open>try\<close> block: the state is \<open>(search_results, last_exception)\<close>, and a method is
  called only while \<open>search_results is None\<close>.
\<close>

definition try_method ::
  "(real list \<Rightarrow> int \<Rightarrow> exn + pyval) \<Rightarrow> real list \<Rightarrow> int \<Rightarrow> pyval \<times> exn option \<Rightarrow> pyval \<times> exn option" where
  "try_method m v limit st =
     (if is_none (fst st)
      then (case m v (limit * 2) of
              Inr r \<Rightarrow> (r, snd st)
            | Inl e \<Rightarrow> (fst st, Some e))
      else st)"

definition call_index :: "environment \<Rightarrow> real list \<Rightarrow> int \<Rightarrow> exn + pyval" where
  "call_index env v limit =
     (let st = try_method (client_query_points env) v limit
                 (try_method (client_search_points env) v limit
                    (try_method (client_search env) v limit (PNone, None)))
      in if is_none (fst st)
         then Inl (case snd st of
                     Some e \<Rightarrow> e
                   | None \<Rightarrow> Exn ''AttributeError''
                               ''Qdrant client does not have a recognized search method.'')
         else Inr (fst st))"

text \<open>The object iterated: \<open>.results\<close>, else \<open>.points\<close>, else the response itself.\<close>

definition result_items :: "pyval \<Rightarrow> pyval" where
  "result_items search_results =
     (if py_hasattr search_results ''results'' then py_getattr search_results ''results'' PNone
      else if py_hasattr search_results ''points'' then py_getattr search_results ''points'' PNone
      else search_results)"

fun py_iter :: "pyval \<Rightarrow> exn + pyval list" where
  "py_iter (PList xs) = Inr xs"
| "py_iter (PTuple xs) = Inr xs"
| "py_iter (PSet xs) = Inr xs"
| "py_iter (PDict d) = Inr (map PStr (remdups (map fst d)))"
| "py_iter (PStr s) = Inr (map (\<lambda>c. PStr [c]) s)"
| "py_iter v = Inl (Exn ''TypeError'' (sq @ type_name v @ sq @ '' object is not iterable''))"

text \<open>
  \<open>VectorStorage.search\<close>. The count of the raw results is computed for the log only and
  is left out. \<open>results.sort(key=..., reverse=True)\<close> is stable: \<open>sort_key\<close> on the
  negated score keeps equal scores in their order.
\<close>

definition search :: "environment \<Rightarrow> string \<Rightarrow> int \<Rightarrow> exn + result_dict list" where
  "search env query limit =
     (if cohere_api_key env = None \<or> cohere_api_key env = Some []
      then Inl (Exn ''ValueError'' ''COHERE_API_KEY environment variable is required for search'')
      else (case embed env query of
              Inl e \<Rightarrow> Inl e
            | Inr query_embedding \<Rightarrow>
                (case call_index env query_embedding limit of
                   Inl e \<Rightarrow> Inl e
                 | Inr search_results \<Rightarrow>
                     (case py_iter (result_items search_results) of
                        Inl e \<Rightarrow> Inl e
                      | Inr search_result_items \<Rightarrow>
                          (case process_hits (float_of_str env) (query_terms query) (elapsed env)
                                  search_result_items of
                             Inl e \<Rightarrow> Inl e
                           | Inr results \<Rightarrow> Inr (sort_key (\<lambda>r. - r_score r) results))))))"

section \<open>The retrieval service\<close>

text \<open>
  \<open>RetrievedContext\<close>, the pydantic model of \<open>agent_models.py\<close>: \<open>score\<close> is declared with
  \<open>ge=0.0, le=1.0\<close>, and a value is accepted where it has the declared type of its
  field (the conversions pydantic may try on a value of another type are not modelled).
\<close>

record retrieved_context =
  ctx_score :: real
  ctx_content :: string
  ctx_url :: string
  ctx_title :: string
  ctx_headings :: "string list"
  ctx_chunk_index :: int
  ctx_source_document :: string
  ctx_metadata :: "(string \<times> pyval) list"

fun str_of :: "pyval \<Rightarrow> string option" where
  "str_of (PStr s) = Some s"
| "str_of _ = None"

fun strs_of_list :: "pyval list \<Rightarrow> string list option" where
  "strs_of_list [] = Some []"
| "strs_of_list (PStr s # xs) = map_option ((#) s) (strs_of_list xs)"
| "strs_of_list (_ # xs) = None"

fun strs_of :: "pyval \<Rightarrow> string list option" where
  "strs_of (PList xs) = strs_of_list xs"
| "strs_of _ = None"

fun int_of_py :: "pyval \<Rightarrow> int option" where
  "int_of_py (PInt i) = Some i"
| "int_of_py _ = None"

fun dict_of :: "pyval \<Rightarrow> (string \<times> pyval) list option" where
  "dict_of (PDict d) = Some d"
| "dict_of _ = None"

definition pydantic_error :: exn where
  "pydantic_error = Exn ''ValidationError'' ''validation error for RetrievedContext''"

definition RetrievedContext ::
  "real \<Rightarrow> pyval \<Rightarrow> pyval \<Rightarrow> pyval \<Rightarrow> pyval \<Rightarrow> pyval \<Rightarrow> pyval \<Rightarrow> pyval \<Rightarrow> exn + retrieved_context" where
  "RetrievedContext score_v content_v url_v title_v headings_v chunk_index_v source_document_v
       metadata_v =
     (case str_of content_v of None \<Rightarrow> Inl pydantic_error | Some c \<Rightarrow>
      case str_of url_v of None \<Rightarrow> Inl pydantic_error | Some u \<Rightarrow>
      case str_of title_v of None \<Rightarrow> Inl pydantic_error | Some t \<Rightarrow>
      case strs_of headings_v of None \<Rightarrow> Inl pydantic_error | Some hs \<Rightarrow>
      case int_of_py chunk_index_v of None \<Rightarrow> Inl pydantic_error | Some i \<Rightarrow>
      case str_of source_document_v of None \<Rightarrow> Inl pydantic_error | Some sd \<Rightarrow>
      case dict_of metadata_v of None \<Rightarrow> Inl pydantic_error | Some md \<Rightarrow>
      if 0 \<le> score_v \<and> score_v \<le> 1
      then Inr \<lparr>ctx_score = score_v, ctx_content = c, ctx_url = u, ctx_title = t,
                ctx_headings = hs, ctx_chunk_index = i, ctx_source_document = sd,
                ctx_metadata = md\<rparr>
      else Inl pydantic_error)"

definition make_context :: "result_dict \<Rightarrow> exn + retrieved_context" where
  "make_context result =
     (let payload = r_payload result
      in RetrievedContext (r_score result)
           (dict_get payload ''content'' (PStr []))
           (dict_get payload ''url'' (PStr []))
           (dict_get payload ''title'' (PStr []))
           (dict_get payload ''headings'' (PList []))
           (dict_get payload ''chunk_index'' (PInt 0))
           (dict_get payload ''source_document'' (PStr []))
           (dict_get payload ''metadata'' (PDict [])))"

fun make_contexts :: "result_dict list \<Rightarrow> exn + retrieved_context list" where
  "make_contexts [] = Inr []"
| "make_contexts (r # rs) =
     (case make_context r of
        Inl e \<Rightarrow> Inl e
      | Inr c \<Rightarrow>
          (case make_contexts rs of
             Inl e \<Rightarrow> Inl e
           | Inr cs \<Rightarrow> Inr (c # cs)))"

text \<open>The handler \<open>except Exception as e: raise RetrievalError(...)\<close>.\<close>

definition retrieval_error :: "exn \<Rightarrow> exn" where
  "retrieval_error e = Exn ''RetrievalError'' (''Failed to retrieve context: '' @ exn_msg e)"

text \<open>
  \<open>RetrievalService.retrieve_context\<close>. The three parameter checks come before the
  \<open>try\<close>; everything raised inside it leaves as a \<open>RetrievalError\<close>.
\<close>

definition retrieve_context ::
  "environment \<Rightarrow> string \<Rightarrow> int \<Rightarrow> real \<Rightarrow> exn + retrieved_context list" where
  "retrieve_context env query top_k min_score =
     (if query = [] \<or> py_strip query = []
      then Inl (Exn ''ValidationError'' ''Query cannot be empty'')
      else if top_k < 1 \<or> top_k > 20
      then Inl (Exn ''ValidationError'' ''top_k must be between 1 and 20'')
      else if min_score < 0.0 \<or> min_score > 1.0
      then Inl (Exn ''ValidationError'' ''min_score must be between 0.0 and 1.0'')
      else (case search env query top_k of
              Inl e \<Rightarrow> Inl (retrieval_error e)
            | Inr search_results \<Rightarrow>
                (case make_contexts (filter (\<lambda>result. r_score result \<ge> min_score) search_results) of
                   Inl e \<Rightarrow> Inl (retrieval_error e)
                 | Inr retrieved_contexts \<Rightarrow> Inr retrieved_contexts)))"

section \<open>The specification's reading of the operations\<close>







text \<open>
  The type contract of a payload field: as the validator tests it, and as the
  specification words it (headings a sequence of strings, chunk_index a non-negative
  integer).
\<close>

definition code_field_type_ok :: "string \<Rightarrow> pyval \<Rightarrow> bool" where
  "code_field_type_ok field v =
     (if field = ''url'' \<or> field = ''title'' \<or> field = ''content'' \<or> field = ''source_document''
      then is_str v
      else if field = ''headings'' then is_list v
      else if field = ''chunk_index'' then is_int v
      else if field = ''metadata'' then is_dict v
      else True)"

definition spec_field_type_ok :: "string \<Rightarrow> pyval \<Rightarrow> bool" where
  "spec_field_type_ok field v =
     (if field = ''url'' \<or> field = ''title'' \<or> field = ''content'' \<or> field = ''source_document''
      then is_str v
      else if field = ''headings'' then (case v of PList xs \<Rightarrow> list_all is_str xs | _ \<Rightarrow> False)
      else if field = ''chunk_index'' then (case v of PInt i \<Rightarrow> 0 \<le> i | _ \<Rightarrow> False)
      else if field = ''metadata'' then is_dict v
      else True)"

definition required_fields_present :: "(string \<times> pyval) list \<Rightarrow> bool" where
  "required_fields_present result =
     list_all (\<lambda>f. map_of result f \<noteq> None) required_result_fields"

definition payload_checks_pass ::
  "(string \<Rightarrow> pyval \<Rightarrow> bool) \<Rightarrow> (string \<times> pyval) list \<Rightarrow> bool" where
  "payload_checks_pass ok result =
     (case dict_get result ''payload'' (PDict []) of
        PDict payload \<Rightarrow>
          list_all (\<lambda>f. case map_of payload f of None \<Rightarrow> False | Some v \<Rightarrow> ok f v)
            required_payload_fields
      | _ \<Rightarrow> False)"

definition code_checks_pass :: "(string \<times> pyval) list \<Rightarrow> bool" where
  "code_checks_pass result =
     (required_fields_present result \<and> payload_checks_pass code_field_type_ok result)"

definition spec_checks_pass :: "(string \<times> pyval) list \<Rightarrow> bool" where
  "spec_checks_pass result =
     (required_fields_present result \<and> payload_checks_pass spec_field_type_ok result)"

text \<open>The top-level \<open>url\<close>, \<open>title\<close> and \<open>content\<close> of a result are strings where present.\<close>

fun str_or_absent :: "pyval option \<Rightarrow> bool" where
  "str_or_absent None = True"
| "str_or_absent (Some v) = is_str v"

definition top_level_strings :: "(string \<times> pyval) list \<Rightarrow> bool" where
  "top_level_strings result =
     (str_or_absent (map_of result ''url'') \<and> str_or_absent (map_of result ''title'')
      \<and> str_or_absent (map_of result ''content''))"

text \<open>The report after the required-field and type checks, before the three warnings.\<close>

definition hard_checks :: "(string \<times> pyval) list \<Rightarrow> validation_result" where
  "hard_checks result =
     check_payload result
       (check_result_fields result required_result_fields
          \<lparr>valid = True, errors = [], warnings = []\<rparr>)"



section \<open>Example inputs\<close>

definition no_float :: "string \<Rightarrow> real option" where
  "no_float s = None"

definition example_payload :: "pyval \<Rightarrow> string \<Rightarrow> (string \<times> pyval) list" where
  "example_payload url_v text =
     [(''url'', url_v), (''title'', PStr ''Intro''), (''content'', PStr text),
      (''headings'', PList [PStr ''Intro'']), (''chunk_index'', PInt 0),
      (''source_document'', PStr ''intro.md''), (''metadata'', PDict [])]"

definition example_point :: "real \<Rightarrow> string \<Rightarrow> pyval" where
  "example_point s text =
     PObj ''ScoredPoint''
       [(''score'', PFloat s), (''payload'', PDict (example_payload (PStr ''/docs/intro'') text))]"

definition example_corpus :: "pyval list" where
  "example_corpus =
     [example_point 0.95 ''humanoid balance control'', example_point 0.9 ''inverse kinematics'',
      example_point 0.85 ''gait planning'', example_point 0.8 ''sensor fusion'',
      example_point 0.75 ''actuator design'', example_point 0.7 ''path planning'',
      example_point 0.65 ''vision pipeline'', example_point 0.6 ''grasp synthesis'',
      example_point 0.55 ''state estimation'', example_point 0.5 ''whole body control'']"

text \<open>An index of ten points whose \<open>search\<close> honours the limit it is given.\<close>

definition example_env :: environment where
  "example_env =
     \<lparr>cohere_api_key = Some ''key'',
      embed = (\<lambda>q. Inr [0.1, 0.2]),
      client_search = (\<lambda>v n. Inr (PList (take (nat n) example_corpus))),
      client_search_points = (\<lambda>v n. Inl (Exn ''AttributeError'' ''search_points'')),
      client_query_points = (\<lambda>v n. Inl (Exn ''AttributeError'' ''query_points'')),
      elapsed = 0.05,
      float_of_str = no_float\<rparr>"



definition long_text :: string where
  "long_text = replicate 250 (CHR ''a'')"



definition string_payload_hit :: pyval where
  "string_payload_hit = PTuple [PStr ''not-a-dict'', PFloat 0.5]"

definition example_result :: "(string \<times> pyval) list" where
  "example_result =
     [(''score'', PFloat 0.8),
      (''payload'', PDict (example_payload (PStr ''https://example.com'') ''Test content'')),
      (''url'', PStr ''https://example.com''), (''title'', PStr ''Test Title''),
      (''content'', PStr ''Test content'')]"

definition bad_payload_result :: "(string \<times> pyval) list" where
  "bad_payload_result =
     [(''score'', PFloat 0.8), (''payload'', PStr ''not a dict''),
      (''url'', PStr ''https://example.com''), (''title'', PStr ''Test Title''),
      (''content'', PStr ''Test content'')]"

definition negative_index_result :: "(string \<times> pyval) list" where
  "negative_index_result =
     [(''score'', PFloat 0.8),
      (''payload'', PDict [(''url'', PStr ''https://example.com''), (''title'', PStr ''Test Title''),
         (''content'', PStr ''Test content''), (''headings'', PList [PStr ''Heading 1'']),
         (''chunk_index'', PInt (- 1)), (''source_document'', PStr ''doc1''),
         (''metadata'', PDict [])]),
      (''url'', PStr ''https://example.com''), (''title'', PStr ''Test Title''),
      (''content'', PStr ''Test content'')]"

definition numeric_headings_result :: "(string \<times> pyval) list" where
  "numeric_headings_result =
     [(''score'', PFloat 0.8),
      (''payload'', PDict [(''url'', PStr ''https://example.com''), (''title'', PStr ''Test Title''),
         (''content'', PStr ''Test content''), (''headings'', PList [PInt 1, PInt 2]),
         (''chunk_index'', PInt 0), (''source_document'', PStr ''doc1''),
         (''metadata'', PDict [])]),
      (''url'', PStr ''https://example.com''), (''title'', PStr ''Test Title''),
      (''content'', PStr ''Test content'')]"

definition int_url_result :: "(string \<times> pyval) list" where
  "int_url_result =
     [(''score'', PFloat 0.8),
      (''payload'', PDict (example_payload (PInt 5) ''Test content'')),
      (''url'', PInt 5), (''title'', PStr ''Intro''), (''content'', PStr ''Test content'')]"

definition int_url_point :: pyval where
  "int_url_point =
     PObj ''ScoredPoint''
       [(''score'', PFloat 0.8), (''payload'', PDict (example_payload (PInt 5) ''Test content''))]"

section \<open>Score coercion\<close>




section \<open>The relevance scorer\<close>





section \<open>The loop body of the search\<close>

lemma process_hit_fields:
  assumes "process_hit pf terms qt h = Inr r"
  shows "\<exists>s raw c t.
           extract_hit h = Inr (PDict (r_payload r), s)
         \<and> coerce_score pf s = Inr raw
         \<and> dict_get (r_payload r) ''content'' (PStr []) = PStr c
         \<and> dict_get (r_payload r) ''title'' (PStr []) = PStr t
         \<and> r_score r = boost raw (count_matched terms (py_lower c) (py_lower t) 0)
         \<and> r_content r = preview c
         \<and> validate_metadata
              (result_literal (r_score r) (r_payload r) (r_url r) (r_title r) (r_content r)
                 (r_query_time r)) = Inr (r_metadata_validation r)"
  using assms unfolding process_hit_def
  by (auto split: sum.splits prod.splits pyval.splits simp: Let_def)






section \<open>The metadata validator\<close>

lemma add_warning_simps [simp]:
  "valid (add_warning m vr) = valid vr"
  "errors (add_warning m vr) = errors vr"
  "warnings (add_warning m vr) = warnings vr @ [m]"
  by (simp_all add: add_warning_def)

lemma add_error_simps [simp]:
  "valid (add_error m vr) = False"
  "errors (add_error m vr) = errors vr @ [m]"
  "warnings (add_error m vr) = warnings vr"
  by (simp_all add: add_error_def)

lemma is_str_PStr: "is_str v \<Longrightarrow> \<exists>s. v = PStr s"
  by (cases v) auto

lemma check_result_fields_valid:
  "valid (check_result_fields result fs vr) =
     (valid vr \<and> list_all (\<lambda>f. map_of result f \<noteq> None) fs)"
  by (induction fs arbitrary: vr) auto

lemma check_result_fields_warnings [simp]:
  "warnings (check_result_fields result fs vr) = warnings vr"
  by (induction fs arbitrary: vr) auto

lemma check_payload_field_valid:
  "valid (check_payload_field payload f vr) =
     (valid vr \<and> (case map_of payload f of None \<Rightarrow> False | Some v \<Rightarrow> code_field_type_ok f v))"
  by (auto simp: check_payload_field_def code_field_type_ok_def split: option.splits)

lemma check_payload_field_warnings [simp]:
  "warnings (check_payload_field payload f vr) = warnings vr"
  by (auto simp: check_payload_field_def split: option.splits)

lemma check_payload_fields_valid:
  "valid (check_payload_fields payload fs vr) =
     (valid vr \<and>
      list_all (\<lambda>f. case map_of payload f of None \<Rightarrow> False | Some v \<Rightarrow> code_field_type_ok f v) fs)"
  by (induction fs arbitrary: vr) (auto simp: check_payload_field_valid)

lemma check_payload_fields_warnings [simp]:
  "warnings (check_payload_fields payload fs vr) = warnings vr"
  by (induction fs arbitrary: vr) auto

lemma check_payload_valid:
  "valid (check_payload result vr) = (valid vr \<and> payload_checks_pass code_field_type_ok result)"
  by (auto simp: check_payload_def payload_checks_pass_def check_payload_fields_valid
           split: pyval.splits)

lemma check_payload_warnings [simp]: "warnings (check_payload result vr) = warnings vr"
  by (auto simp: check_payload_def split: pyval.splits)

lemma check_payload_not_dict:
  "\<not> is_dict (dict_get result ''payload'' (PDict [])) \<Longrightarrow>
     check_payload result vr = add_error ''Payload must be a dictionary'' vr"
  by (cases "dict_get result ''payload'' (PDict [])") (auto simp: check_payload_def)

lemma hard_checks_valid: "valid (hard_checks result) = code_checks_pass result"
  by (simp add: hard_checks_def check_payload_valid check_result_fields_valid
        code_checks_pass_def required_fields_present_def)

lemma hard_checks_warnings: "warnings (hard_checks result) = []"
  by (simp add: hard_checks_def)

lemma check_url_keeps:
  "check_url result vr = Inr vr' \<Longrightarrow> valid vr' = valid vr \<and> errors vr' = errors vr"
  by (auto simp: check_url_def split: option.splits pyval.splits if_splits)

lemma check_title_keeps:
  "check_title result vr = Inr vr' \<Longrightarrow> valid vr' = valid vr \<and> errors vr' = errors vr"
  by (auto simp: check_title_def split: option.splits sum.splits if_splits)

lemma check_content_keeps:
  "check_content result vr = Inr vr' \<Longrightarrow> valid vr' = valid vr \<and> errors vr' = errors vr"
  by (auto simp: check_content_def split: option.splits sum.splits pyval.splits if_splits)

lemma validate_metadata_steps:
  assumes "validate_metadata result = Inr rep"
  shows "\<exists>vr3 vr4. check_url result (hard_checks result) = Inr vr3
           \<and> check_title result vr3 = Inr vr4 \<and> check_content result vr4 = Inr rep"
  using assms by (auto simp: validate_metadata_def hard_checks_def Let_def split: sum.splits)

lemma validate_metadata_hard:
  assumes "validate_metadata result = Inr rep"
  shows "valid rep = valid (hard_checks result) \<and> errors rep = errors (hard_checks result)"
proof -
  from validate_metadata_steps[OF assms] obtain vr3 vr4 where
    u: "check_url result (hard_checks result) = Inr vr3" and
    t: "check_title result vr3 = Inr vr4" and
    c: "check_content result vr4 = Inr rep" by blast
  from check_url_keeps[OF u] check_title_keeps[OF t] check_content_keeps[OF c]
  show ?thesis by simp
qed

lemma check_url_total:
  "str_or_absent (map_of result ''url'') \<Longrightarrow> \<exists>vr'. check_url result vr = Inr vr'"
  by (cases "map_of result ''url''") (auto simp: check_url_def dest!: is_str_PStr)

lemma check_title_total:
  "str_or_absent (map_of result ''title'') \<Longrightarrow> \<exists>vr'. check_title result vr = Inr vr'"
  by (cases "map_of result ''title''") (auto simp: check_title_def dest!: is_str_PStr)

lemma check_content_total:
  "str_or_absent (map_of result ''content'') \<Longrightarrow> \<exists>vr'. check_content result vr = Inr vr'"
  by (cases "map_of result ''content''") (auto simp: check_content_def dest!: is_str_PStr)

lemma validate_metadata_total:
  assumes "top_level_strings result"
  shows "\<exists>rep. validate_metadata result = Inr rep"
proof -
  obtain vr3 where u: "check_url result (hard_checks result) = Inr vr3"
    using check_url_total assms unfolding top_level_strings_def by blast
  obtain vr4 where t: "check_title result vr3 = Inr vr4"
    using check_title_total assms unfolding top_level_strings_def by blast
  obtain rep where c: "check_content result vr4 = Inr rep"
    using check_content_total assms unfolding top_level_strings_def by blast
  show ?thesis using u t c by (simp add: validate_metadata_def hard_checks_def Let_def)
qed

lemma check_url_short:
  "check_url result vr = Inr vr' \<Longrightarrow>
     (''Content appears to be very short'' \<in> set (warnings vr')) =
     (''Content appears to be very short'' \<in> set (warnings vr))"
  by (auto simp: check_url_def split: option.splits pyval.splits if_splits)

lemma check_title_short:
  "check_title result vr = Inr vr' \<Longrightarrow>
     (''Content appears to be very short'' \<in> set (warnings vr')) =
     (''Content appears to be very short'' \<in> set (warnings vr))"
  by (auto simp: check_title_def split: option.splits sum.splits if_splits)

lemma check_content_short:
  assumes "check_content result vr = Inr vr'"
    and "map_of result ''content'' = Some (PStr c)"
    and "''Content appears to be very short'' \<notin> set (warnings vr)"
  shows "(''Content appears to be very short'' \<in> set (warnings vr')) =
         (length c < 10 \<and> py_strip c \<noteq> [])"
  using assms by (auto simp: check_content_def split: if_splits)

lemma validate_metadata_short:
  assumes "validate_metadata result = Inr rep"
    and "map_of result ''content'' = Some (PStr c)"
  shows "(''Content appears to be very short'' \<in> set (warnings rep)) =
         (length c < 10 \<and> py_strip c \<noteq> [])"
proof -
  from validate_metadata_steps[OF assms(1)] obtain vr3 vr4 where
    u: "check_url result (hard_checks result) = Inr vr3" and
    t: "check_title result vr3 = Inr vr4" and
    c: "check_content result vr4 = Inr rep" by blast
  have "''Content appears to be very short'' \<notin> set (warnings vr4)"
    using check_url_short[OF u] check_title_short[OF t] by (simp add: hard_checks_warnings)
  from check_content_short[OF c assms(2) this] show ?thesis .
qed

text \<open>
  C3. The claim is right about what the validator is for and wrong about the code: a
  payload whose \<open>url\<close> is the integer \<open>5\<close> is first recorded as a type error, and then
  \<open>url.startswith\<close> raises \<open>AttributeError\<close> on the same value, both when the validator
  is called on such a result and when the search meets such a hit.
\<close>

theorem validate_metadata_raises_on_int_url:
  "validate_metadata int_url_result = Inl (attribute_error (PInt 5) ''startswith'')
   \<and> errors (hard_checks int_url_result) = [''Payload field '' @ sq @ ''url'' @ sq @ '' must be a string'']
   \<and> process_hit no_float (query_terms ''gait'') 0.05 int_url_point
        = Inl (attribute_error (PInt 5) ''startswith'')"
  by code_simp

text \<open>
  C6, as the claim states it, fails: a payload whose \<open>chunk_index\<close> is \<open>-1\<close>, and one whose
  \<open>headings\<close> are the numbers \<open>[1, 2]\<close>, are reported valid without an error.
\<close>

theorem negative_chunk_index_reported_valid:
  "validate_metadata negative_index_result = Inr \<lparr>valid = True, errors = [], warnings = []\<rparr>
   \<and> \<not> spec_checks_pass negative_index_result
   \<and> validate_metadata numeric_headings_result = Inr \<lparr>valid = True, errors = [], warnings = []\<rparr>
   \<and> \<not> spec_checks_pass numeric_headings_result"
  by code_simp

text \<open>
  C6, amended. Whenever \<open>validate_metadata\<close> returns a report, \<open>valid\<close> is false if and
  only if a required top-level field is missing, the payload is not a mapping, a
  required payload field is missing, or a payload field fails its type check, the type
  checks being: url, title, content and source_document are strings, headings is a list
  (whatever its elements), chunk_index is an \<open>int\<close> (of any sign, a \<open>bool\<close> included) and
  metadata is a mapping. The soft warnings never change \<open>valid\<close> or the errors, and a
  report is returned whenever the top-level url, title and content are strings or absent.
\<close>

theorem valid_iff_checks_pass:
  "(validate_metadata result = Inr rep \<longrightarrow>
      valid rep = code_checks_pass result
      \<and> valid rep = valid (hard_checks result) \<and> errors rep = errors (hard_checks result))
   \<and> (top_level_strings result \<longrightarrow> (\<exists>rep'. validate_metadata result = Inr rep'))"
  using validate_metadata_hard[of result rep] hard_checks_valid[of result]
    validate_metadata_total[of result]
  by blast

theorem valid_iff_checks_pass_witness:
  "validate_metadata example_result = Inr \<lparr>valid = True, errors = [], warnings = []\<rparr>
   \<and> code_checks_pass example_result
   \<and> top_level_strings example_result
   \<and> validate_metadata negative_index_result = Inr \<lparr>valid = True, errors = [], warnings = []\<rparr>
   \<and> code_checks_pass negative_index_result"
proof -
  have 1: "validate_metadata example_result = Inr \<lparr>valid = True, errors = [], warnings = []\<rparr>"
    by code_simp
  have 2: "top_level_strings example_result" by code_simp
  have 3: "validate_metadata negative_index_result = Inr \<lparr>valid = True, errors = [], warnings = []\<rparr>"
    by code_simp
  from valid_iff_checks_pass[of example_result "\<lparr>valid = True, errors = [], warnings = []\<rparr>"]
       valid_iff_checks_pass[of negative_index_result "\<lparr>valid = True, errors = [], warnings = []\<rparr>"]
       1 2 3
  show ?thesis by simp
qed

section \<open>Normalised payloads\<close>

lemma coerce_payload_dict: "is_dict (coerce_payload v)"
  by (cases v) (simp_all add: coerce_payload_def)

lemma extract_hit_dict: "extract_hit h = Inr (p, s) \<Longrightarrow> is_dict p"
  unfolding extract_hit_def
  by (cases h) (auto simp: Let_def coerce_payload_dict split: if_splits sum.splits)

lemma extract_hit_total: "\<not> is_list h \<Longrightarrow> \<exists>p s. extract_hit h = Inr (p, s)"
  unfolding extract_hit_def
  by (cases h) (auto simp: Let_def split: sum.splits)

text \<open>
  C7, as the claim states it, fails on the last part: the hit \<open>("not-a-dict", 0.5)\<close> is
  normalised to the empty payload, and the validator, which now sees a mapping, does not
  report "Payload must be a dictionary".
\<close>

theorem string_payload_not_reported:
  "(case process_hit no_float (query_terms ''gait'') 0.05 string_payload_hit of
      Inl e \<Rightarrow> False
    | Inr r \<Rightarrow>
        r_payload r = [] \<and> \<not> valid (r_metadata_validation r)
        \<and> ''Payload must be a dictionary'' \<notin> set (errors (r_metadata_validation r)))"
  by code_simp

text \<open>
  C7, amended. For every raw hit that is not a list (a tuple, a mapping, an object with a
  score attribute, or any other object) the normalisation returns, and the normalised
  payload is a mapping. A raw string payload degrades to the empty mapping, and for the
  hit \<open>("not-a-dict", 0.5)\<close> the validator then reports \<open>valid = false\<close> with one
  "Missing required payload field" error for each of the seven payload fields. The error
  "Payload must be a dictionary" is reported, with \<open>valid = false\<close>, whenever
  \<open>validate_metadata\<close> returns a report for a result whose payload is not a mapping.
\<close>

theorem payload_always_mapping:
  "(extract_hit h = Inr (p, s) \<longrightarrow> is_dict p)
   \<and> (\<not> is_list h \<longrightarrow> (\<exists>p' s'. extract_hit h = Inr (p', s')))
   \<and> coerce_payload (PStr str) = PDict []
   \<and> (\<exists>r. process_hit pf terms qt string_payload_hit = Inr r
          \<and> r_payload r = [] \<and> \<not> valid (r_metadata_validation r)
          \<and> errors (r_metadata_validation r)
              = map ((@) ''Missing required payload field: '') required_payload_fields)
   \<and> (validate_metadata result = Inr rep \<and> \<not> is_dict (dict_get result ''payload'' (PDict []))
        \<longrightarrow> \<not> valid rep \<and> ''Payload must be a dictionary'' \<in> set (errors rep))"
proof -
  have 1: "extract_hit h = Inr (p, s) \<longrightarrow> is_dict p"
    using extract_hit_dict by blast
  have 2: "\<not> is_list h \<longrightarrow> (\<exists>p' s'. extract_hit h = Inr (p', s'))"
    using extract_hit_total by blast
  have 3: "coerce_payload (PStr str) = PDict []"
    by (simp add: coerce_payload_def)
  have x: "extract_hit string_payload_hit = Inr (PDict [], PFloat 0.5)"
    by (simp add: extract_hit_def string_payload_hit_def coerce_payload_def)
  have c: "coerce_score pf (PFloat z) = Inr z" for z
    by (simp add: coerce_score_def collapse_score_def)
  have v: "validate_metadata (result_literal sc [] (PStr []) [] [] qt) =
             Inr \<lparr>valid = False,
                  errors = map ((@) ''Missing required payload field: '') required_payload_fields,
                  warnings = []\<rparr>" for sc
    by (simp add: validate_metadata_def result_literal_def required_result_fields_def
          required_payload_fields_def check_payload_def check_payload_field_def dict_get_def
          check_url_def check_title_def check_content_def add_error_def py_strip_def)
  have 4: "\<exists>r. process_hit pf terms qt string_payload_hit = Inr r
          \<and> r_payload r = [] \<and> \<not> valid (r_metadata_validation r)
          \<and> errors (r_metadata_validation r)
              = map ((@) ''Missing required payload field: '') required_payload_fields"
    by (simp add: process_hit_def x c v Let_def dict_get_def preview_def)
  have 5: "validate_metadata result = Inr rep \<and> \<not> is_dict (dict_get result ''payload'' (PDict []))
        \<longrightarrow> \<not> valid rep \<and> ''Payload must be a dictionary'' \<in> set (errors rep)"
  proof
    assume a: "validate_metadata result = Inr rep \<and> \<not> is_dict (dict_get result ''payload'' (PDict []))"
    then have h: "hard_checks result =
        add_error ''Payload must be a dictionary''
          (check_result_fields result required_result_fields
             \<lparr>valid = True, errors = [], warnings = []\<rparr>)"
      by (simp add: hard_checks_def check_payload_not_dict)
    from a validate_metadata_hard[of result rep]
    have "valid rep = valid (hard_checks result) \<and> errors rep = errors (hard_checks result)"
      by blast
    then show "\<not> valid rep \<and> ''Payload must be a dictionary'' \<in> set (errors rep)"
      unfolding h by simp
  qed
  from 1 2 3 4 5 show ?thesis by blast
qed

theorem payload_always_mapping_witness:
  "extract_hit string_payload_hit = Inr (PDict [], PFloat 0.5)
   \<and> is_dict (PDict [])
   \<and> \<not> is_list string_payload_hit
   \<and> validate_metadata bad_payload_result
       = Inr \<lparr>valid = False, errors = [''Payload must be a dictionary''], warnings = []\<rparr>
   \<and> \<not> is_dict (dict_get bad_payload_result ''payload'' (PDict []))
   \<and> ''Payload must be a dictionary''
       \<in> set (errors \<lparr>valid = False, errors = [''Payload must be a dictionary''], warnings = []\<rparr>)"
proof -
  have 1: "extract_hit string_payload_hit = Inr (PDict [], PFloat 0.5)" by code_simp
  have 2: "\<not> is_list string_payload_hit" by code_simp
  have 3: "validate_metadata bad_payload_result
       = Inr \<lparr>valid = False, errors = [''Payload must be a dictionary''], warnings = []\<rparr>"
    by code_simp
  have 4: "\<not> is_dict (dict_get bad_payload_result ''payload'' (PDict []))" by code_simp
  from payload_always_mapping[of string_payload_hit "PDict []" "PFloat 0.5" _ _ _ _
         bad_payload_result
         "\<lparr>valid = False, errors = [''Payload must be a dictionary''], warnings = []\<rparr>"]
       1 2 3 4
  show ?thesis by simp
qed

section \<open>The content preview\<close>

text \<open>
  C10. For every hit the search turns into a result, the payload is the normalised
  payload of the hit with its full content, the top-level content is the first 200
  characters followed by \<open>...\<close> when the payload content is longer than 200 characters
  and the payload content itself otherwise, the validation attached to the result is
  that of the result with this top-level content, and the short-content warning is
  present exactly when the top-level content is shorter than 10 characters and not blank.
\<close>

theorem content_preview_truncated:
  assumes "process_hit pf terms qt h = Inr r"
  shows "\<exists>s c. extract_hit h = Inr (PDict (r_payload r), s)
      \<and> dict_get (r_payload r) ''content'' (PStr []) = PStr c
      \<and> r_content r = (if length c > 200 then take 200 c @ ''...'' else c)
      \<and> validate_metadata
           (result_literal (r_score r) (r_payload r) (r_url r) (r_title r) (r_content r)
              (r_query_time r)) = Inr (r_metadata_validation r)
      \<and> ((''Content appears to be very short'' \<in> set (warnings (r_metadata_validation r)))
           = (length (r_content r) < 10 \<and> py_strip (r_content r) \<noteq> []))"
proof -
  from process_hit_fields[OF assms] obtain s c where
    x: "extract_hit h = Inr (PDict (r_payload r), s)" and
    c: "dict_get (r_payload r) ''content'' (PStr []) = PStr c" and
    p: "r_content r = preview c" and
    v: "validate_metadata
           (result_literal (r_score r) (r_payload r) (r_url r) (r_title r) (r_content r)
              (r_query_time r)) = Inr (r_metadata_validation r)"
    by blast
  have m: "map_of (result_literal (r_score r) (r_payload r) (r_url r) (r_title r) (r_content r)
              (r_query_time r)) ''content'' = Some (PStr (r_content r))"
    by (simp add: result_literal_def)
  from validate_metadata_short[OF v m] x c p v show ?thesis
    by (auto simp: preview_def)
qed

theorem content_preview_truncated_witness:
  "\<exists>r. process_hit no_float (query_terms ''gait'') 0.05 (example_point 0.9 long_text) = Inr r
      \<and> dict_get (r_payload r) ''content'' (PStr []) = PStr long_text
      \<and> r_content r = take 200 long_text @ ''...''
      \<and> ''Content appears to be very short'' \<notin> set (warnings (r_metadata_validation r))"
proof -
  have "\<not> isl (process_hit no_float (query_terms ''gait'') 0.05 (example_point 0.9 long_text))"
    by code_simp
  then obtain r where
    e: "process_hit no_float (query_terms ''gait'') 0.05 (example_point 0.9 long_text) = Inr r"
    by (cases "process_hit no_float (query_terms ''gait'') 0.05 (example_point 0.9 long_text)") auto
  have x: "extract_hit (example_point 0.9 long_text)
             = Inr (PDict (example_payload (PStr ''/docs/intro'') long_text), PFloat 0.9)"
    by (simp add: extract_hit_def example_point_def py_attr_def dict_get_def coerce_payload_def)
  have g: "dict_get (example_payload (PStr ''/docs/intro'') long_text) ''content'' (PStr [])
             = PStr long_text"
    by (simp add: example_payload_def dict_get_def)
  have l: "length long_text = 250" by (simp add: long_text_def)
  from content_preview_truncated[OF e] obtain s c where
    1: "extract_hit (example_point 0.9 long_text) = Inr (PDict (r_payload r), s)" and
    2: "dict_get (r_payload r) ''content'' (PStr []) = PStr c" and
    3: "r_content r = (if length c > 200 then take 200 c @ ''...'' else c)" and
    5: "(''Content appears to be very short'' \<in> set (warnings (r_metadata_validation r)))
           = (length (r_content r) < 10 \<and> py_strip (r_content r) \<noteq> [])"
    by blast
  from 1 x have pr: "r_payload r = example_payload (PStr ''/docs/intro'') long_text" by simp
  from 2 pr g have cc: "c = long_text" by simp
  from 3 cc l have rc: "r_content r = take 200 long_text @ ''...''" by simp
  have "length (r_content r) = 203" unfolding rc by (simp add: l)
  with 5 have "''Content appears to be very short'' \<notin> set (warnings (r_metadata_validation r))"
    by simp
  with e 2 cc rc show ?thesis by blast
qed

section \<open>The retrieval service\<close>

















text \<open>
  C1. The claim is right about what \<open>top_k\<close> is for and wrong about the code: the search
  asks the index for \<open>2 * top_k\<close> hits and nothing truncates the sorted list afterwards.
  With \<open>top_k = 3\<close> against an index of ten points that all pass \<open>min_score = 0.3\<close>, the
  six hits the index returns are all returned.
\<close>

theorem retrieve_returns_twice_top_k:
  "map_sum id (map ctx_score) (retrieve_context example_env ''locomotion'' 3 0.3)
     = Inr [0.95, 0.9, 0.85, 0.8, 0.75, 0.7]
   \<and> map_sum id length (retrieve_context example_env ''locomotion'' 3 0.3) = Inr 6"
  by code_simp

end
